theory Spec2Isabelle
  imports Complex_Main "HOL-Library.AList" "HOL-Library.Log_Nat" "HOL-Library.Word"
begin

section \<open>JavaScript values\<close>

text \<open>
  The normalisation module (\<^verbatim>\<open>_3_norm.js\<close>) works on plain JavaScript values.
  A finite JavaScript number is a double, and every finite double is a rational;
  finite numbers are modelled as \<open>rat\<close>, and the result of \<open>+\<close>, \<open>*\<close>, \<open>/\<close> and the
  value of a numeric literal are rounded to the nearest double (\<open>toDouble\<close> below).
  The sign of zero is not modelled. \<open>NaN\<close> and the two infinities are kept as
  values of their own, because the control flow of the module depends on them.
\<close>

datatype jsnum = NaN | NegInf | Fin rat | PosInf

datatype jsval =
    JUndefined
  | JNull
  | JBool bool
  | JNum jsnum
  | JStr string
  | JObj "(string \<times> jsval) list"

text \<open>A plain object (a hash): its properties in enumeration order.\<close>

type_synonym hash = "(string \<times> jsval) list"

text \<open>\<^verbatim>\<open>obj[key]\<close>: a missing property reads as \<^verbatim>\<open>undefined\<close>.\<close>

definition getProp :: "hash \<Rightarrow> string \<Rightarrow> jsval" where
  "getProp h k = (case map_of h k of None \<Rightarrow> JUndefined | Some v \<Rightarrow> v)"

text \<open>\<^verbatim>\<open>obj[key] = value\<close>: overwrites in place or appends a new property.\<close>

definition setProp :: "hash \<Rightarrow> string \<Rightarrow> jsval \<Rightarrow> hash" where
  "setProp h k v = AList.update k v h"

text \<open>Truthiness, as used by \<^verbatim>\<open>cond ? a : b\<close> and \<^verbatim>\<open>if ( cond )\<close>.\<close>

fun truthy :: "jsval \<Rightarrow> bool" where
  "truthy JUndefined = False"
| "truthy JNull = False"
| "truthy (JBool b) = b"
| "truthy (JNum n) = (n \<noteq> NaN \<and> n \<noteq> Fin 0)"
| "truthy (JStr s) = (s \<noteq> [])"
| "truthy (JObj h) = True"

subsection \<open>Rounding to a double\<close>

text \<open>
  The binary logarithm of a positive rational, rounded down: the exponent \<open>l\<close>
  with \<open>2\<^sup>l \<le> x < 2\<^sup>l\<^sup>+\<^sup>1\<close>. The bit lengths of numerator and denominator give
  it up to one.
\<close>

definition ilog2 :: "rat \<Rightarrow> int" where
  "ilog2 x =
     (let (p, q) = quotient_of x;
          l = bitlen p - bitlen q
      in if 2 powi l \<le> x then l else l - 1)"

text \<open>The nearest integer, a tie going to the even one.\<close>

definition roundHalfEven :: "rat \<Rightarrow> int" where
  "roundHalfEven y =
     (let n = \<lfloor>y\<rfloor>; f = y - of_int n
      in if f < 1 / 2 then n else if 1 / 2 < f then n + 1 else if even n then n else n + 1)"

text \<open>
  The binary64 number nearest to a positive rational, before overflow is looked
  at: 53 significant bits, the spacing never below \<open>2\<^sup>-\<^sup>1\<^sup>0\<^sup>7\<^sup>4\<close> (the subnormal
  numbers), a tie going to the even significand.
\<close>

definition nearestDouble :: "rat \<Rightarrow> rat" where
  "nearestDouble x =
     (let e = max (ilog2 x - 52) (- 1074)
      in of_int (roundHalfEven (x / 2 powi e)) * 2 powi e)"

text \<open>
  The double a real result is rounded to (round to nearest, ties to even): what
  rounds to \<open>2\<^sup>1\<^sup>0\<^sup>2\<^sup>4\<close> or beyond is an infinity.
\<close>

definition toDouble :: "rat \<Rightarrow> jsnum" where
  "toDouble x =
     (if x = 0 then Fin 0
      else if 0 < x
      then (if 1024 \<le> ilog2 (nearestDouble x) then PosInf else Fin (nearestDouble x))
      else (if 1024 \<le> ilog2 (nearestDouble (- x)) then NegInf
            else Fin (- nearestDouble (- x))))"

subsection \<open>Number arithmetic\<close>

text \<open>
  The operations on finite numbers round the exact result to a double. A sum
  with \<open>0\<close> and a product with \<open>1\<close> are the other operand, as they are in double
  arithmetic.
\<close>

fun js_add :: "jsnum \<Rightarrow> jsnum \<Rightarrow> jsnum" where
  "js_add NaN _ = NaN"
| "js_add _ NaN = NaN"
| "js_add (Fin a) (Fin b) = (if a = 0 then Fin b else if b = 0 then Fin a else toDouble (a + b))"
| "js_add PosInf NegInf = NaN"
| "js_add NegInf PosInf = NaN"
| "js_add PosInf _ = PosInf"
| "js_add _ PosInf = PosInf"
| "js_add NegInf _ = NegInf"
| "js_add _ NegInf = NegInf"

text \<open>The sign of a number that is not \<open>NaN\<close>: \<open>-1\<close>, \<open>0\<close> or \<open>1\<close>.\<close>

fun js_sign :: "jsnum \<Rightarrow> int" where
  "js_sign NaN = 0"
| "js_sign NegInf = -1"
| "js_sign PosInf = 1"
| "js_sign (Fin a) = (if a < 0 then -1 else if a = 0 then 0 else 1)"

fun js_mul :: "jsnum \<Rightarrow> jsnum \<Rightarrow> jsnum" where
  "js_mul NaN _ = NaN"
| "js_mul _ NaN = NaN"
| "js_mul (Fin a) (Fin b) = (if a = 1 then Fin b else if b = 1 then Fin a else toDouble (a * b))"
| "js_mul x y =
     (if js_sign x * js_sign y = 0 then NaN
      else if js_sign x * js_sign y < 0 then NegInf else PosInf)"

text \<open>Division; a zero divisor is read as \<open>+0\<close>.\<close>

fun js_div :: "jsnum \<Rightarrow> jsnum \<Rightarrow> jsnum" where
  "js_div NaN _ = NaN"
| "js_div _ NaN = NaN"
| "js_div (Fin a) (Fin b) =
     (if b = 0 then (if a = 0 then NaN else if a < 0 then NegInf else PosInf)
      else toDouble (a / b))"
| "js_div (Fin a) _ = Fin 0"
| "js_div x (Fin b) =
     (if js_sign x * (if b < 0 then -1 else 1) < 0 then NegInf else PosInf)"
| "js_div _ _ = NaN"

text \<open>
  \<^verbatim>\<open>Math.round\<close>: the nearest integer, a tie going up; this is \<open>round\<close> of HOL,
  \<open>\<lfloor>x + 1/2\<rfloor>\<close>.
\<close>

fun Math_round :: "jsnum \<Rightarrow> jsnum" where
  "Math_round (Fin a) = Fin (of_int (round a))"
| "Math_round x = x"

fun Math_min :: "jsnum \<Rightarrow> jsnum \<Rightarrow> jsnum" where
  "Math_min NaN _ = NaN"
| "Math_min _ NaN = NaN"
| "Math_min NegInf _ = NegInf"
| "Math_min _ NegInf = NegInf"
| "Math_min PosInf y = y"
| "Math_min x PosInf = x"
| "Math_min (Fin a) (Fin b) = Fin (min a b)"

fun Math_max :: "jsnum \<Rightarrow> jsnum \<Rightarrow> jsnum" where
  "Math_max NaN _ = NaN"
| "Math_max _ NaN = NaN"
| "Math_max PosInf _ = PosInf"
| "Math_max _ PosInf = PosInf"
| "Math_max NegInf y = y"
| "Math_max x NegInf = x"
| "Math_max (Fin a) (Fin b) = Fin (max a b)"

subsection \<open>Strings\<close>

text \<open>
  \<^verbatim>\<open>String.prototype.toLowerCase\<close> on the ASCII letters; other characters are
  left as they are.
\<close>

definition charCode :: "char \<Rightarrow> nat" where
  "charCode c = of_char c"

definition lowerChar :: "char \<Rightarrow> char" where
  "lowerChar c =
     (if 65 \<le> charCode c \<and> charCode c \<le> 90 then char_of (charCode c + 32) else c)"

definition toLowerCase :: "string \<Rightarrow> string" where
  "toLowerCase s = map lowerChar s"

text \<open>
  \<^verbatim>\<open>String.prototype.slice( start, end )\<close>: a negative index counts from the end,
  both indices are cut to the string, a missing end is the length.
\<close>

definition sliceIndex :: "nat \<Rightarrow> int \<Rightarrow> nat" where
  "sliceIndex len i = (if i < 0 then nat (max (int len + i) 0) else min (nat i) len)"

definition slice :: "string \<Rightarrow> int \<Rightarrow> int option \<Rightarrow> string" where
  "slice s start stop =
     (let len = length s;
          lo = sliceIndex len start;
          hi = (case stop of None \<Rightarrow> len | Some e \<Rightarrow> sliceIndex len e)
      in take (hi - lo) (drop lo s))"

subsection \<open>\<^verbatim>\<open>parseFloat\<close> and \<^verbatim>\<open>jQuery.isNumeric\<close>\<close>

definition isDigit :: "char \<Rightarrow> bool" where
  "isDigit c = (48 \<le> charCode c \<and> charCode c \<le> 57)"

definition isWhiteSpace :: "char \<Rightarrow> bool" where
  "isWhiteSpace c = (charCode c \<in> {9, 10, 11, 12, 13, 32})"

definition digitValue :: "char \<Rightarrow> nat" where
  "digitValue c = charCode c - 48"

definition digitsValue :: "string \<Rightarrow> nat" where
  "digitsValue ds = foldl (\<lambda>a d. 10 * a + digitValue d) 0 ds"

text \<open>An optional sign in front of a literal: the factor and the rest.\<close>

fun signPrefix :: "string \<Rightarrow> rat \<times> string" where
  "signPrefix [] = (1, [])"
| "signPrefix (c # r) =
     (if c = CHR ''-'' then (-1, r) else if c = CHR ''+'' then (1, r) else (1, c # r))"

text \<open>
  The exponent part \<^verbatim>\<open>e\<close>, \<^verbatim>\<open>E\<close> with an optional sign and at least one digit:
  the power of ten it stands for and the rest of the string; without digits there
  is no exponent part and nothing is consumed.
\<close>

definition exponentPart :: "string \<Rightarrow> rat \<times> string" where
  "exponentPart s =
     (case s of
        [] \<Rightarrow> (1, s)
      | c # r \<Rightarrow>
          if c = CHR ''e'' \<or> c = CHR ''E'' then
            (let (sg, r') = signPrefix r;
                 ds = takeWhile isDigit r'
             in if ds = [] then (1, s)
                else (if sg < 0 then 1 / 10 ^ digitsValue ds else 10 ^ digitsValue ds,
                      dropWhile isDigit r'))
          else (1, s))"

text \<open>
  The longest prefix of \<open>s\<close> that is an unsigned decimal literal (digits, an
  optional fraction, an optional exponent): its value and the rest; \<open>None\<close> when
  no prefix is one.
\<close>

definition decimalPrefix :: "string \<Rightarrow> (rat \<times> string) option" where
  "decimalPrefix s =
     (let ip = takeWhile isDigit s;
          r1 = dropWhile isDigit s;
          (fp, r2) = (case r1 of
                        [] \<Rightarrow> ([], r1)
                      | c # r \<Rightarrow> if c = CHR ''.''
                                then (takeWhile isDigit r, dropWhile isDigit r)
                                else ([], r1))
      in if ip = [] \<and> fp = [] then None
         else (let (ex, r3) = exponentPart r2
               in Some ((of_nat (digitsValue ip)
                         + of_nat (digitsValue fp) / 10 ^ length fp) * ex, r3)))"

text \<open>
  A signed literal at the start of \<open>s\<close>: \<^verbatim>\<open>Infinity\<close> or a decimal literal.
  The literal's value, rounded to a double, and the rest.
\<close>

definition strDecimalLiteral :: "string \<Rightarrow> (jsnum \<times> string) option" where
  "strDecimalLiteral s =
     (let (sg, u) = signPrefix s
      in if take 8 u = ''Infinity'' then Some (if sg < 0 then NegInf else PosInf, drop 8 u)
         else (case decimalPrefix u of
                 None \<Rightarrow> None
               | Some (v, r) \<Rightarrow> Some (toDouble (sg * v), r)))"

text \<open>
  \<^verbatim>\<open>parseFloat\<close>: leading white space is skipped, the longest literal at the
  start is read and what follows it is ignored; \<open>NaN\<close> when there is none.
  White space is the ASCII white space; the value is the double nearest to the
  literal, an infinity when the literal is beyond the doubles.
\<close>

definition parseFloat :: "string \<Rightarrow> jsnum" where
  "parseFloat s =
     (case strDecimalLiteral (dropWhile isWhiteSpace s) of
        None \<Rightarrow> NaN
      | Some (v, r) \<Rightarrow> v)"

text \<open>
  Hexadecimal integer literals \<^verbatim>\<open>0x...\<close>, which \<^verbatim>\<open>Number( string )\<close> reads.
  The binary and octal literals of later editions of the language are not read.
\<close>

definition hexValue :: "char \<Rightarrow> nat option" where
  "hexValue c =
     (let n = charCode c
      in if 48 \<le> n \<and> n \<le> 57 then Some (n - 48)
         else if 97 \<le> n \<and> n \<le> 102 then Some (n - 87)
         else if 65 \<le> n \<and> n \<le> 70 then Some (n - 55)
         else None)"

definition hexLiteral :: "string \<Rightarrow> nat option" where
  "hexLiteral s =
     (if (take 2 s = ''0x'' \<or> take 2 s = ''0X'') \<and> drop 2 s \<noteq> []
          \<and> list_all (\<lambda>c. hexValue c \<noteq> None) (drop 2 s)
      then Some (foldl (\<lambda>a c. 16 * a + the (hexValue c)) 0 (drop 2 s))
      else None)"

text \<open>
  \<^verbatim>\<open>Number( string )\<close>, the conversion behind \<^verbatim>\<open>string - number\<close>: white space
  is trimmed on both sides, the empty string is \<open>0\<close>, and the whole rest must be
  one literal.
\<close>

definition trim :: "string \<Rightarrow> string" where
  "trim s = rev (dropWhile isWhiteSpace (rev (dropWhile isWhiteSpace s)))"

definition toNumber :: "string \<Rightarrow> jsnum" where
  "toNumber s =
     (let t = trim s
      in if t = [] then Fin 0
         else (case hexLiteral t of
                 Some n \<Rightarrow> toDouble (of_nat n)
               | None \<Rightarrow>
                   (case strDecimalLiteral t of
                      Some (v, []) \<Rightarrow> v
                    | _ \<Rightarrow> NaN)))"

text \<open>\<^verbatim>\<open>x >= 0\<close> on numbers: false for \<open>NaN\<close>.\<close>

fun js_ge0 :: "jsnum \<Rightarrow> bool" where
  "js_ge0 (Fin a) = (0 \<le> a)"
| "js_ge0 PosInf = True"
| "js_ge0 _ = False"

text \<open>
  \<^verbatim>\<open>jQuery.isNumeric\<close> on a string, as jQuery 1.11 and 2.1 define it:
  \<^verbatim>\<open>( obj - parseFloat( obj ) + 1 ) >= 0\<close>.
\<close>

definition isNumeric :: "string \<Rightarrow> bool" where
  "isNumeric s =
     js_ge0 (js_add (js_add (toNumber s) (js_mul (Fin (-1)) (parseFloat s))) (Fin 1))"

section \<open>The normalisation module\<close>

subsection \<open>Constants\<close>

definition altAxisNamesV :: "string list" where
  "altAxisNamesV = [''v'', ''y'', ''top'']"

definition altAxisNamesH :: "string list" where
  "altAxisNamesH = [''h'', ''x'', ''left'']"

definition altAxisNamesBoth :: "string list" where
  "altAxisNamesBoth = [''vh'', ''hv'', ''xy'', ''yx'', ''all'']"

definition altAxisNames :: "string list" where
  "altAxisNames = altAxisNamesV @ altAxisNamesH @ altAxisNamesBoth"

definition VERTICAL :: string where
  "VERTICAL = ''vertical''"

definition HORIZONTAL :: string where
  "HORIZONTAL = ''horizontal''"

definition BOTH_AXES :: string where
  "BOTH_AXES = ''both''"

definition IGNORE_AXIS :: jsnum where
  "IGNORE_AXIS = Fin (-999)"

definition defaults :: hash where
  "defaults = [(''axis'', JStr VERTICAL), (''queue'', JStr ''internal.jquery.scrollable'')]"

text \<open>\<^verbatim>\<open>norm.defaults.axis\<close>\<close>

definition defaultsAxis :: string where
  "defaultsAxis = VERTICAL"

datatype scrollMode = MODE_REPLACE | MODE_APPEND | MODE_MERGE

subsection \<open>Errors\<close>

text \<open>
  The module throws plain \<^verbatim>\<open>Error\<close> objects at four places; each place is a
  constructor, with the value the message reports.
  \<^item> \<open>InvalidAxisName\<close>: \<^verbatim>\<open>"Invalid axis name " + name\<close>
  \<^item> \<open>AmbiguousAxis\<close>: \<^verbatim>\<open>"Axis option not defined, or not defined unambiguously, ..."\<close>
  \<^item> \<open>AxisKeywordMismatch\<close>: \<^verbatim>\<open>"Desired position " + position + "is inconsistent with axis option " + axis\<close>
  \<^item> \<open>InvalidPositionValue\<close>: \<^verbatim>\<open>"Invalid position argument " + origPositionArg\<close>
\<close>

datatype error =
    InvalidAxisName string
  | AmbiguousAxis jsval
  | AxisKeywordMismatch string string
  | InvalidPositionValue jsval

subsection \<open>Collaborators\<close>

text \<open>
  The container, as far as the module reads it: \<^verbatim>\<open>$container.scrollLeft()\<close>,
  \<^verbatim>\<open>$container.scrollTop()\<close>, and the two scroll maxima that
  \<^verbatim>\<open>lib.getScrollMaximum\<close> reports. A scroll maximum is a difference of the
  scroll size and the client size of an element, which the DOM holds as 32-bit
  integers: it is a whole number of pixels below \<open>2\<^sup>3\<^sup>2\<close>.
\<close>

record container =
  scrollLeft :: jsnum
  scrollTop :: jsnum
  scrollMaxHorizontal :: "32 word"
  scrollMaxVertical :: "32 word"

text \<open>
  Modelled from the spec: \<^verbatim>\<open>lib.getScrollMaximum\<close> is defined outside the
  module and is not among the sources. It is the spec's
  \<^verbatim>\<open>RangeProbe.maxPosition( container, axis )\<close>, the maximum scrollable offset of
  the container on the axis.
\<close>

definition getScrollMaximum :: "container \<Rightarrow> string \<Rightarrow> jsnum" where
  "getScrollMaximum c axis =
     Fin (of_nat (unat (if axis = HORIZONTAL then scrollMaxHorizontal c
                        else scrollMaxVertical c)))"


fun isNumber :: "jsval \<Rightarrow> bool" where
  "isNumber (JNum n) = (n \<noteq> NaN)"
| "isNumber _ = False"

text \<open>The number that a number value holds.\<close>

fun numberValue :: "jsval \<Rightarrow> jsnum" where
  "numberValue (JNum n) = n"
| "numberValue _ = NaN"

definition isInArray :: "string \<Rightarrow> string list \<Rightarrow> bool" where
  "isInArray x xs = (x \<in> set xs)"

text \<open>\<^verbatim>\<open>$.isPlainObject\<close>\<close>

fun isPlainObject :: "jsval \<Rightarrow> bool" where
  "isPlainObject (JObj h) = True"
| "isPlainObject _ = False"

text \<open>
  \<^verbatim>\<open>$.extend( {}, o1, o2, ... )\<close>: the properties of each object in turn are
  written to the target; a property whose value is \<^verbatim>\<open>undefined\<close> is skipped.
\<close>

definition extendWith :: "hash \<Rightarrow> hash \<Rightarrow> hash" where
  "extendWith target src =
     foldl (\<lambda>t (k, v). if v = JUndefined then t else setProp t k v) target src"

definition jQuery_extend :: "hash list \<Rightarrow> hash" where
  "jQuery_extend objs = foldl extendWith [] objs"

text \<open>
  An entry of the queue info: \<^verbatim>\<open>info.position\<close> may be missing, and each
  axis of a position may be missing (\<^verbatim>\<open>undefined\<close>).
\<close>

record qposition =
  qhorizontal :: "jsnum option"
  qvertical :: "jsnum option"

record info =
  position :: "qposition option"

text \<open>
  Modelled from the spec: \<^verbatim>\<open>queue.QueueWrapper\<close> is defined outside the module
  and is not among the sources. It is the spec's
  \<^verbatim>\<open>QueueView.snapshot( queueId )\<close>: \<^verbatim>\<open>$scrollable\<close> is read as the function
  from a queue name to the entries pending there, oldest first, and a wrapper is
  the list that its \<^verbatim>\<open>getInfo()\<close> returns.
\<close>

type_synonym scrollable = "jsval \<Rightarrow> info list"

definition QueueWrapper :: "scrollable \<Rightarrow> jsval \<Rightarrow> info list" where
  "QueueWrapper s queueName = s queueName"

text \<open>The result: \<^verbatim>\<open>{ horizontal: ..., vertical: ... }\<close>.\<close>

record coordinates =
  horizontal :: jsnum
  vertical :: jsnum

subsection \<open>Axis names\<close>

definition normalizeAxisName :: "string \<Rightarrow> error + string" where
  "normalizeAxisName name =
     (let name' = (if isInArray name altAxisNamesV then VERTICAL
                   else if isInArray name altAxisNamesH then HORIZONTAL
                   else if isInArray name altAxisNamesBoth then BOTH_AXES
                   else name)
      in if \<not> (name' = VERTICAL \<or> name' = HORIZONTAL \<or> name' = BOTH_AXES)
         then Inl (InvalidAxisName name')
         else Inr name')"

text \<open>
  \<^verbatim>\<open>normalizeAxisProperty\<close>: the loop over the properties, with the copy built
  so far; a throw of \<^verbatim>\<open>normalizeAxisName\<close> ends it.
\<close>

fun normalizeAxisPropertyLoop :: "hash \<Rightarrow> hash \<Rightarrow> error + hash" where
  "normalizeAxisPropertyLoop normalized [] = Inr normalized"
| "normalizeAxisPropertyLoop normalized ((key, v) # rest) =
     (if isInArray key altAxisNames then
        (case normalizeAxisName key of
           Inl e \<Rightarrow> Inl e
         | Inr name \<Rightarrow> normalizeAxisPropertyLoop (setProp normalized name v) rest)
      else normalizeAxisPropertyLoop (setProp normalized key v) rest)"

definition normalizeAxisProperty :: "hash \<Rightarrow> error + hash" where
  "normalizeAxisProperty inputHash = normalizeAxisPropertyLoop [] inputHash"

subsection \<open>Helpers\<close>

definition getScrollMode :: "hash \<Rightarrow> scrollMode" where
  "getScrollMode animationOptions =
     (if truthy (getProp animationOptions ''append'') then MODE_APPEND
      else if truthy (getProp animationOptions ''merge'') then MODE_MERGE
      else MODE_REPLACE)"

definition isUndefinedPositionValue :: "jsval \<Rightarrow> bool" where
  "isUndefinedPositionValue positionValue =
     (positionValue = JUndefined \<or> positionValue = JNull
      \<or> positionValue = JBool False \<or> positionValue = JStr [])"

definition limitToScrollRange :: "jsnum \<Rightarrow> container \<Rightarrow> string \<Rightarrow> jsnum" where
  "limitToScrollRange pos c axis =
     (let pos1 = Math_min pos (getScrollMaximum c axis);
          pos2 = Math_max pos1 (Fin 0)
      in pos2)"

definition getCurrentScrollPosition :: "container \<Rightarrow> string \<Rightarrow> jsnum" where
  "getCurrentScrollPosition c axis = (if axis = HORIZONTAL then scrollLeft c else scrollTop c)"

text \<open>
  \<^verbatim>\<open>getLastPositionInfo\<close>: one step of the \<^verbatim>\<open>$.each\<close> loop over the info
  entries, on the running hash \<^verbatim>\<open>last\<close>.
\<close>

definition lastPositionStep :: "coordinates \<Rightarrow> info \<Rightarrow> coordinates" where
  "lastPositionStep lst entry =
     (case position entry of
        None \<Rightarrow> lst
      | Some p \<Rightarrow>
          (let retrievedX = qhorizontal p;
               retrievedY = qvertical p;
               lst1 = (case retrievedX of
                         None \<Rightarrow> lst
                       | Some x \<Rightarrow> if x \<noteq> IGNORE_AXIS then lst\<lparr>horizontal := x\<rparr> else lst);
               lst2 = (case retrievedY of
                         None \<Rightarrow> lst1
                       | Some y \<Rightarrow> if y \<noteq> IGNORE_AXIS then lst1\<lparr>vertical := y\<rparr> else lst1)
           in lst2))"

definition lastPositions :: "info list \<Rightarrow> coordinates" where
  "lastPositions infoEntries =
     foldl lastPositionStep \<lparr>horizontal = IGNORE_AXIS, vertical = IGNORE_AXIS\<rparr> infoEntries"

text \<open>
  \<^verbatim>\<open>last[axis]\<close>: \<^verbatim>\<open>undefined\<close> (\<open>None\<close>) for a name that is not a
  property of the hash.
\<close>

definition readAxis :: "coordinates \<Rightarrow> string \<Rightarrow> jsnum option" where
  "readAxis cs axis =
     (if axis = HORIZONTAL then Some (horizontal cs)
      else if axis = VERTICAL then Some (vertical cs)
      else None)"

text \<open>
  The result of \<^verbatim>\<open>getLastPositionInfo\<close> is the hash for both axes, or what
  \<^verbatim>\<open>last[axis]\<close> holds for one axis. The axis argument is optional.
\<close>

datatype lastInfo = LastBoth coordinates | LastAxis "jsnum option"

definition getLastPositionInfo :: "info list \<Rightarrow> string option \<Rightarrow> lastInfo" where
  "getLastPositionInfo queueWrapper axis =
     (let returnBothAxes = (case axis of None \<Rightarrow> True | Some a \<Rightarrow> a = [] \<or> a = BOTH_AXES);
          lst = lastPositions queueWrapper
      in case axis of
           None \<Rightarrow> LastBoth lst
         | Some a \<Rightarrow> if returnBothAxes then LastBoth lst else LastAxis (readAxis lst a))"

text \<open>
  The number a caller reads from the result of a single-axis query
  (\<^verbatim>\<open>undefined\<close> is \<open>None\<close>). The callers in this file query one axis only.
\<close>

fun lastNumber :: "lastInfo \<Rightarrow> jsnum option" where
  "lastNumber (LastAxis n) = n"
| "lastNumber (LastBoth cs) = None"

definition getStartScrollPosition ::
  "container \<Rightarrow> info list \<Rightarrow> string \<Rightarrow> scrollMode \<Rightarrow> jsnum" where
  "getStartScrollPosition c queueWrapper axis mode =
     (let pos = (if mode = MODE_APPEND \<or> mode = MODE_MERGE
                 then lastNumber (getLastPositionInfo queueWrapper (Some axis))
                 else None)
      in case pos of
           None \<Rightarrow> getCurrentScrollPosition c axis
         | Some p \<Rightarrow> if p = IGNORE_AXIS then getCurrentScrollPosition c axis else p)"

subsection \<open>Positions\<close>

text \<open>
  The value stored in \<^verbatim>\<open>normalized[axis]\<close> when it is read from the queue.
  A single-axis query never returns \<^verbatim>\<open>undefined\<close> for a canonical axis; the
  model stores \<open>NaN\<close> in a coordinate where JavaScript would store
  \<^verbatim>\<open>undefined\<close>.
\<close>

definition queuedTarget :: "info list \<Rightarrow> string \<Rightarrow> jsnum" where
  "queuedTarget queueWrapper axis =
     (case lastNumber (getLastPositionInfo queueWrapper (Some axis)) of
        None \<Rightarrow> NaN
      | Some n \<Rightarrow> n)"

text \<open>
  \<^verbatim>\<open>normalized[axis] = value; normalized[otherAxis] = norm.IGNORE_AXIS\<close>, for
  an axis that is \<open>HORIZONTAL\<close> or \<open>VERTICAL\<close>.
\<close>

definition singleAxis :: "string \<Rightarrow> jsnum \<Rightarrow> coordinates" where
  "singleAxis axis v =
     (if axis = HORIZONTAL then \<lparr>horizontal = v, vertical = IGNORE_AXIS\<rparr>
      else \<lparr>horizontal = IGNORE_AXIS, vertical = v\<rparr>)"

text \<open>
  Lines 200 to 213: the position strings of an axis. The result is the new value
  of \<^verbatim>\<open>position\<close>, a number or the string as it was.
\<close>

definition resolvePositionString :: "string \<Rightarrow> container \<Rightarrow> string \<Rightarrow> error + jsval" where
  "resolvePositionString pos c axis =
     (if axis = HORIZONTAL then
        (let p1 = (if pos = ''left'' then JNum (Fin 0) else JStr pos);
             p2 = (if p1 = JStr ''right'' then JNum (getScrollMaximum c axis) else p1)
         in if p2 = JStr ''top'' \<or> p2 = JStr ''bottom''
            then Inl (AxisKeywordMismatch pos axis) else Inr p2)
      else
        (let p1 = (if pos = ''top'' then JNum (Fin 0) else JStr pos);
             p2 = (if p1 = JStr ''bottom'' then JNum (getScrollMaximum c axis) else p1)
         in if p2 = JStr ''left'' \<or> p2 = JStr ''right''
            then Inl (AxisKeywordMismatch pos axis) else Inr p2))"

text \<open>
  Lines 193 to 218: the units \<^verbatim>\<open>px\<close> and \<^verbatim>\<open>%\<close>, the position strings, and
  the conversion of a numeric string that is left. The argument is the
  lower-cased string without its prefix.
\<close>

definition resolveUnits :: "string \<Rightarrow> container \<Rightarrow> string \<Rightarrow> error + jsval" where
  "resolveUnits pos c axis =
     (case (if slice pos (-2) None = ''px''
            then Inr (JNum (parseFloat (slice pos 0 (Some (-2)))))
            else if slice pos (-1) None = ''%''
            then Inr (JNum (js_div (js_mul (parseFloat (slice pos 0 (Some (-1))))
                                           (getScrollMaximum c axis)) (Fin 100)))
            else resolvePositionString pos c axis) of
        Inl e \<Rightarrow> Inl e
      | Inr (JStr s) \<Rightarrow> Inr (if isNumeric s then JNum (parseFloat s) else JStr s)
      | Inr v \<Rightarrow> Inr v)"

text \<open>
  Lines 185 to 191: the prefixes \<^verbatim>\<open>+=\<close> and \<^verbatim>\<open>-=\<close> of the lower-cased
  string. The result is the string without the prefix, the sign and the base
  position.
\<close>

definition relativePrefix ::
  "string \<Rightarrow> container \<Rightarrow> info list \<Rightarrow> string \<Rightarrow> scrollMode \<Rightarrow> string \<times> jsnum \<times> jsnum" where
  "relativePrefix pos c queueWrapper axis mode =
     (let prefix = slice pos 0 (Some 2)
      in if prefix = ''+='' \<or> prefix = ''-=''
         then (slice pos 2 None,
               if prefix = ''+='' then Fin 1 else Fin (-1),
               getStartScrollPosition c queueWrapper axis mode)
         else (pos, Fin 1, Fin 0))"

definition normalizePositionForAxis ::
  "jsval \<Rightarrow> container \<Rightarrow> hash \<Rightarrow> info list \<Rightarrow> error + coordinates" where
  "normalizePositionForAxis pos c options queueWrapper =
     (let origPositionArg = pos;
          mode = getScrollMode options
      in case getProp options ''axis'' of
           JStr axis \<Rightarrow>
             if \<not> (axis = HORIZONTAL \<or> axis = VERTICAL) then Inl (AmbiguousAxis (JStr axis))
             else
               (case (case pos of
                        JStr s \<Rightarrow>
                          (let (s', sign, basePosition) =
                                 relativePrefix (toLowerCase s) c queueWrapper axis mode
                           in case resolveUnits s' c axis of
                                Inl e \<Rightarrow> Inl e
                              | Inr v \<Rightarrow> Inr (v, sign, basePosition))
                      | _ \<Rightarrow> Inr (pos, Fin 1, Fin 0)) of
                  Inl e \<Rightarrow> Inl e
                | Inr (v, sign, basePosition) \<Rightarrow>
                    if isNumber v
                    then Inr (singleAxis axis
                           (limitToScrollRange
                              (Math_round (js_add basePosition (js_mul sign (numberValue v))))
                              c axis))
                    else if isUndefinedPositionValue v
                    then Inr (singleAxis axis
                           (if mode = MODE_MERGE then queuedTarget queueWrapper axis
                            else IGNORE_AXIS))
                    else Inl (InvalidPositionValue origPositionArg))
         | other \<Rightarrow> Inl (AmbiguousAxis other))"

definition normalizePositionForHash ::
  "hash \<Rightarrow> container \<Rightarrow> hash \<Rightarrow> info list \<Rightarrow> error + coordinates" where
  "normalizePositionForHash pos c options queueWrapper =
     (let axis = getProp options ''axis''
      in case normalizeAxisProperty pos of
           Inl e \<Rightarrow> Inl e
         | Inr pos' \<Rightarrow>
             (let posX = getProp pos' HORIZONTAL;
                  posY = getProp pos' VERTICAL;
                  ignoreX = (axis = JStr VERTICAL);
                  ignoreY = (axis = JStr HORIZONTAL);
                  optionsX = jQuery_extend [options, [(''axis'', JStr HORIZONTAL)]];
                  optionsY = jQuery_extend [options, [(''axis'', JStr VERTICAL)]]
              in case (if ignoreX
                       then Inr (if truthy (getProp options ''merge'')
                                 then queuedTarget queueWrapper HORIZONTAL else IGNORE_AXIS)
                       else map_sum id horizontal
                              (normalizePositionForAxis posX c optionsX queueWrapper)) of
                   Inl e \<Rightarrow> Inl e
                 | Inr x \<Rightarrow>
                     (case (if ignoreY
                            then Inr (if truthy (getProp options ''merge'')
                                      then queuedTarget queueWrapper VERTICAL else IGNORE_AXIS)
                            else map_sum id vertical
                                   (normalizePositionForAxis posY c optionsY queueWrapper)) of
                        Inl e \<Rightarrow> Inl e
                      | Inr y \<Rightarrow> Inr \<lparr>horizontal = x, vertical = y\<rparr>)))"

definition normalizePosition ::
  "jsval \<Rightarrow> container \<Rightarrow> scrollable \<Rightarrow> hash \<Rightarrow> error + coordinates" where
  "normalizePosition pos c s options =
     (let queueWrapper = QueueWrapper s (getProp options ''queue'')
      in case pos of
           JObj h \<Rightarrow> normalizePositionForHash h c options queueWrapper
         | _ \<Rightarrow> normalizePositionForAxis pos c options queueWrapper)"

subsection \<open>Options\<close>

definition normalizeOptions :: "hash option \<Rightarrow> jsval \<Rightarrow> error + hash" where
  "normalizeOptions options pos =
     (case (case options of None \<Rightarrow> Inr [] | Some h \<Rightarrow> normalizeAxisProperty h) of
        Inl e \<Rightarrow> Inl e
      | Inr options' \<Rightarrow>
          (case (case pos of
                   JObj h \<Rightarrow>
                     (case normalizeAxisProperty h of
                        Inl e \<Rightarrow> Inl e
                      | Inr pos' \<Rightarrow>
                          (let hasX = (\<not> isUndefinedPositionValue (getProp pos' HORIZONTAL)
                                       \<and> getProp pos' HORIZONTAL \<noteq> JNum IGNORE_AXIS);
                               hasY = (\<not> isUndefinedPositionValue (getProp pos' VERTICAL)
                                       \<and> getProp pos' VERTICAL \<noteq> JNum IGNORE_AXIS)
                           in Inr (if hasX \<and> hasY then BOTH_AXES
                                   else if hasX then HORIZONTAL else VERTICAL)))
                 | JStr s \<Rightarrow>
                     (let s' = toLowerCase s
                      in Inr (if s' = ''top'' \<or> s' = ''bottom'' then VERTICAL
                              else if s' = ''left'' \<or> s' = ''right'' then HORIZONTAL
                              else defaultsAxis))
                 | _ \<Rightarrow> Inr defaultsAxis) of
             Inl e \<Rightarrow> Inl e
           | Inr axisDefault \<Rightarrow>
               Inr (jQuery_extend [defaults, [(''axis'', JStr axisDefault)], options'])))"

section \<open>Notions of the specification\<close>

text \<open>
  The canonical name of a property key: what \<^verbatim>\<open>normalizeAxisProperty\<close> writes
  the value of the key to.
\<close>

definition canonicalKey :: "string \<Rightarrow> string" where
  "canonicalKey key =
     (if key \<in> set altAxisNamesV then VERTICAL
      else if key \<in> set altAxisNamesH then HORIZONTAL
      else if key \<in> set altAxisNamesBoth then BOTH_AXES
      else key)"

text \<open>
  The queue-inheritance algorithm in the words of the specification: the
  snapshot is scanned from the oldest entry to the newest, and a running value
  per axis is overwritten whenever an entry specifies a target for the axis that
  is not the ignore-axis value; it starts as the ignore-axis value.
\<close>

definition entryTarget :: "string \<Rightarrow> info \<Rightarrow> jsnum option" where
  "entryTarget axis entry =
     (case position entry of
        None \<Rightarrow> None
      | Some p \<Rightarrow> if axis = HORIZONTAL then qhorizontal p else qvertical p)"

definition overwriteTarget :: "string \<Rightarrow> jsnum \<Rightarrow> info \<Rightarrow> jsnum" where
  "overwriteTarget axis running entry =
     (case entryTarget axis entry of
        None \<Rightarrow> running
      | Some t \<Rightarrow> if t = IGNORE_AXIS then running else t)"

definition lastQueuedTarget :: "info list \<Rightarrow> string \<Rightarrow> jsnum" where
  "lastQueuedTarget snapshot axis = foldl (overwriteTarget axis) IGNORE_AXIS snapshot"

text \<open>A container and a queue for the examples.\<close>

definition exampleContainer :: container where
  "exampleContainer =
     \<lparr>scrollLeft = Fin 0, scrollTop = Fin 100,
      scrollMaxHorizontal = 500, scrollMaxVertical = 1000\<rparr>"

definition shortContainer :: container where
  "shortContainer =
     \<lparr>scrollLeft = Fin 7, scrollTop = Fin 0,
      scrollMaxHorizontal = 500, scrollMaxVertical = 375\<rparr>"

definition exampleQueue :: "info list" where
  "exampleQueue =
     [\<lparr>position = Some \<lparr>qhorizontal = None, qvertical = Some (Fin 300)\<rparr>\<rparr>]"





text \<open>
  The axis default in the words of the specification. The keys of a hash are
  made canonical first; an axis is present when its value is none of
  \<^verbatim>\<open>undefined\<close>, \<^verbatim>\<open>null\<close>, \<^verbatim>\<open>false\<close>, the empty string and the ignore-axis
  value.
\<close>

definition canonicalizeAxisKeys :: "hash \<Rightarrow> hash" where
  "canonicalizeAxisKeys h = foldl (\<lambda>a (k, v). setProp a (canonicalKey k) v) [] h"

definition presentAxis :: "hash \<Rightarrow> string \<Rightarrow> bool" where
  "presentAxis h axis =
     (getProp h axis \<noteq> JUndefined \<and> getProp h axis \<noteq> JNull \<and> getProp h axis \<noteq> JBool False
      \<and> getProp h axis \<noteq> JStr [] \<and> getProp h axis \<noteq> JNum IGNORE_AXIS)"

definition derivedAxisDefault :: "jsval \<Rightarrow> string" where
  "derivedAxisDefault pos =
     (case pos of
        JObj h \<Rightarrow>
          (let h' = canonicalizeAxisKeys h
           in if presentAxis h' HORIZONTAL \<and> presentAxis h' VERTICAL then BOTH_AXES
              else if presentAxis h' HORIZONTAL then HORIZONTAL
              else if presentAxis h' VERTICAL then VERTICAL
              else VERTICAL)
      | JStr s \<Rightarrow>
          (if toLowerCase s = ''top'' \<or> toLowerCase s = ''bottom'' then VERTICAL
           else if toLowerCase s = ''left'' \<or> toLowerCase s = ''right'' then HORIZONTAL
           else VERTICAL)
      | _ \<Rightarrow> VERTICAL)"

section \<open>Properties\<close>

subsection \<open>Rounding to a double\<close>

text \<open>
  \<open>ilog2\<close> is the binary logarithm, rounded down. A number \<open>k * 2\<^sup>j\<close> with
  \<open>k < 2\<^sup>5\<^sup>3\<close> and \<open>- 1074 \<le> j\<close> is its own nearest double; so an integer below
  \<open>2\<^sup>5\<^sup>3\<close> and its half are doubles.
\<close>

lemma ilog2_lower:
  assumes "0 < x"
  shows "2 powi (ilog2 x) \<le> x"
proof -
  obtain p q where pq: "quotient_of x = (p, q)" by (cases "quotient_of x")
  have q: "0 < q" using pq by (rule quotient_of_denom_pos)
  have x: "x = of_int p / of_int q" using pq by (rule quotient_of_div)
  have p: "0 < p" using assms q x by (simp add: zero_less_divide_iff)
  let ?l = "bitlen p - bitlen q"
  show ?thesis
  proof (cases "2 powi ?l \<le> x")
    case True
    then show ?thesis by (simp add: ilog2_def pq)
  next
    case False
    have bp1: "1 \<le> bitlen p"
      using p by (simp add: bitlen_alt_def)
    have "(2::int) ^ nat (bitlen p - 1) \<le> p"
      using bitlen_bounds [OF p] by simp
    then have "of_int ((2::int) ^ nat (bitlen p - 1)) \<le> (of_int p :: rat)"
      by (simp only: of_int_le_iff)
    then have bp: "(2::rat) ^ nat (bitlen p - 1) \<le> of_int p"
      by simp
    have "q < (2::int) ^ nat (bitlen q)"
      using bitlen_bounds [OF q] by simp
    then have "(of_int q :: rat) < of_int ((2::int) ^ nat (bitlen q))"
      by (simp only: of_int_less_iff)
    then have bq: "of_int q \<le> (2::rat) ^ nat (bitlen q)"
      by simp
    have "(2::rat) powi (?l - 1) = 2 powi (bitlen p - 1) / 2 powi (bitlen q)"
      using power_int_diff [of "2::rat" "bitlen p - 1" "bitlen q"] by (simp add: algebra_simps)
    also have "\<dots> = 2 ^ nat (bitlen p - 1) / 2 ^ nat (bitlen q)"
      using bp1 bitlen_nonneg [of q] by (simp add: power_int_def)
    also have "\<dots> \<le> of_int p / of_int q"
      using bp bq q p by (intro frac_le) simp_all
    finally have "2 powi (?l - 1) \<le> x"
      by (simp add: x)
    with False show ?thesis by (simp add: ilog2_def pq)
  qed
qed

lemma roundHalfEven_of_int [simp]: "roundHalfEven (of_int n) = n"
  by (simp add: roundHalfEven_def)

lemma of_int_below: "k < 2 ^ 53 \<Longrightarrow> (of_int k :: rat) < 2 ^ 53"
  using of_int_less_iff [where 'a = rat, of k "2 ^ 53"] by (simp del: of_int_less_iff)

lemma nearestDouble_exact:
  assumes "0 < k" and "k < 2 ^ 53" and "- 1074 \<le> j"
  shows "nearestDouble (of_int k * 2 powi j) = of_int k * 2 powi j"
proof -
  let ?x = "of_int k * 2 powi j :: rat"
  let ?e = "max (ilog2 ?x - 52) (- 1074)"
  have pos: "0 < ?x" using assms(1) by simp
  have "?x < 2 ^ 53 * 2 powi j"
    using of_int_below [OF assms(2)] by simp
  also have "\<dots> = 2 powi (53 + j)"
    by (simp add: power_int_add)
  finally have "2 powi (ilog2 ?x) < (2::rat) powi (53 + j)"
    using ilog2_lower [OF pos] by simp
  then have "ilog2 ?x < 53 + j"
    using power_int_increasing [of "53 + j" "ilog2 ?x" "2::rat"] by (cases "ilog2 ?x < 53 + j") simp_all
  then have e: "?e \<le> j"
    using assms(3) by simp
  have "?x / 2 powi ?e = of_int k * 2 powi (j - ?e)"
    by (simp add: power_int_diff)
  also have "\<dots> = of_int (k * 2 ^ nat (j - ?e))"
    using e by (simp add: power_int_def)
  finally have "roundHalfEven (?x / 2 powi ?e) = k * 2 ^ nat (j - ?e)"
    by (simp only: roundHalfEven_of_int)
  then have "nearestDouble ?x = of_int (k * 2 ^ nat (j - ?e)) * 2 powi ?e"
    by (simp add: nearestDouble_def Let_def)
  also have "\<dots> = of_int k * (2 powi (j - ?e) * 2 powi ?e)"
    using e by (simp add: power_int_def)
  also have "\<dots> = ?x"
    by (simp flip: power_int_add)
  finally show ?thesis .
qed

lemma ilog2_upper:
  assumes "0 < x"
  shows "x < 2 powi (ilog2 x + 1)"
proof -
  obtain p q where pq: "quotient_of x = (p, q)" by (cases "quotient_of x")
  have q: "0 < q" using pq by (rule quotient_of_denom_pos)
  have x: "x = of_int p / of_int q" using pq by (rule quotient_of_div)
  have p: "0 < p" using assms q x by (simp add: zero_less_divide_iff)
  let ?l = "bitlen p - bitlen q"
  show ?thesis
  proof (cases "2 powi ?l \<le> x")
    case False
    then show ?thesis by (simp add: ilog2_def pq)
  next
    case True
    have bq1: "1 \<le> bitlen q"
      using q by (simp add: bitlen_alt_def)
    have "p < (2::int) ^ nat (bitlen p)"
      using bitlen_bounds [OF p] by simp
    then have "(of_int p :: rat) < of_int ((2::int) ^ nat (bitlen p))"
      by (simp only: of_int_less_iff)
    then have bp: "of_int p < (2::rat) ^ nat (bitlen p)"
      by simp
    have "(2::int) ^ nat (bitlen q - 1) \<le> q"
      using bitlen_bounds [OF q] by simp
    then have "of_int ((2::int) ^ nat (bitlen q - 1)) \<le> (of_int q :: rat)"
      by (simp only: of_int_le_iff)
    then have bq: "(2::rat) ^ nat (bitlen q - 1) \<le> of_int q"
      by simp
    have "of_int p / of_int q < (2::rat) ^ nat (bitlen p) / 2 ^ nat (bitlen q - 1)"
      using bp bq q p by (intro frac_less) simp_all
    also have "\<dots> = 2 powi (bitlen p) / 2 powi (bitlen q - 1)"
      using bq1 bitlen_nonneg [of p] by (simp add: power_int_def)
    also have "\<dots> = (2::rat) powi (?l + 1)"
      using power_int_diff [of "2::rat" "bitlen p" "bitlen q - 1"] by (simp add: algebra_simps)
    finally have "x < 2 powi (?l + 1)"
      by (simp add: x)
    with True show ?thesis by (simp add: ilog2_def pq)
  qed
qed

lemma ilog2_ge_iff:
  assumes "0 < x"
  shows "(n \<le> ilog2 x) = (2 powi n \<le> x)"
proof
  assume "n \<le> ilog2 x"
  then have "(2::rat) powi n \<le> 2 powi (ilog2 x)"
    by (intro power_int_increasing) simp_all
  then show "2 powi n \<le> x"
    using ilog2_lower [OF assms] by simp
next
  assume "2 powi n \<le> x"
  then have "(2::rat) powi n < 2 powi (ilog2 x + 1)"
    using ilog2_upper [OF assms] by simp
  then show "n \<le> ilog2 x"
    using power_int_increasing [of "ilog2 x + 1" n "2::rat"] by (cases "n \<le> ilog2 x") simp_all
qed

lemma ilog2_small: "0 < x \<Longrightarrow> x < 2 ^ 53 \<Longrightarrow> \<not> 1024 \<le> ilog2 x"
proof
  assume x: "0 < x" "x < 2 ^ 53" and big: "1024 \<le> ilog2 x"
  have "(2::rat) powi 53 \<le> 2 powi (ilog2 x)"
    using big by (intro power_int_increasing) simp_all
  then have "(2::rat) powi 53 \<le> x"
    using ilog2_lower [OF x(1)] by simp
  then show False
    using x(2) by (simp add: power_int_def)
qed

lemma toDouble_int:
  assumes "0 \<le> k" and "k < 2 ^ 53"
  shows "toDouble (of_int k) = Fin (of_int k)"
proof (cases "k = 0")
  case True
  then show ?thesis by (simp add: toDouble_def)
next
  case False
  then have k: "0 < k" using assms(1) by simp
  have small: "\<not> 1024 \<le> ilog2 (of_int k :: rat)"
    using k of_int_below [OF assms(2)] by (intro ilog2_small) simp_all
  have nd: "nearestDouble (of_int k) = of_int k"
    using nearestDouble_exact [OF k assms(2), of 0] by simp
  show ?thesis
    using k small by (simp add: toDouble_def nd)
qed

lemma toDouble_half:
  assumes "0 \<le> k" and "k < 2 ^ 53"
  shows "toDouble (of_int k / 2) = Fin (of_int k / 2)"
proof (cases "k = 0")
  case True
  then show ?thesis by (simp add: toDouble_def)
next
  case False
  then have k: "0 < k" using assms(1) by simp
  have "(of_int k / 2 :: rat) \<le> of_int k"
    using k by simp
  also have "\<dots> < 2 ^ 53"
    using assms(2) by (rule of_int_below)
  finally have small: "\<not> 1024 \<le> ilog2 (of_int k / 2 :: rat)"
    using k by (intro ilog2_small) simp_all
  have half: "(of_int k * 2 powi (- 1) :: rat) = of_int k / 2"
    by (simp add: power_int_minus)
  have nd: "nearestDouble (of_int k / 2) = of_int k / 2"
    using nearestDouble_exact [OF k assms(2), of "- 1"] by (simp only: half)
  show ?thesis
    using k small by (simp add: toDouble_def nd)
qed

lemma toDouble_not_NaN [simp]: "toDouble x \<noteq> NaN"
  by (simp add: toDouble_def)

subsection \<open>Hashes and axis names\<close>

lemma getProp_setProp: "getProp (setProp h k v) k' = (if k' = k then v else getProp h k')"
  by (simp add: getProp_def setProp_def update_conv')

lemma map_of_setProp: "map_of (setProp h k v) = (map_of h)(k \<mapsto> v)"
  by (simp add: setProp_def update_conv')

lemma distinct_setProp: "distinct (map fst h) \<Longrightarrow> distinct (map fst (setProp h k v))"
  by (simp add: setProp_def distinct_update)

lemma map_of_extendWith:
  "distinct (map fst src) \<Longrightarrow>
   map_of (extendWith t src) k =
     (case map_of src k of
        Some v \<Rightarrow> if v = JUndefined then map_of t k else Some v
      | None \<Rightarrow> map_of t k)"
proof (induction src arbitrary: t)
  case Nil
  show ?case by (simp add: extendWith_def)
next
  case (Cons kv src)
  obtain k' v' where kv: "kv = (k', v')" by (cases kv)
  have step: "extendWith t ((k', v') # src) =
      extendWith (if v' = JUndefined then t else setProp t k' v') src"
    by (simp add: extendWith_def)
  have none: "k = k' \<Longrightarrow> map_of src k = None"
    using Cons.prems kv by (simp add: map_of_eq_None_iff)
  show ?case
    using Cons.IH [of "if v' = JUndefined then t else setProp t k' v'"] Cons.prems none
    by (auto simp: step kv map_of_setProp split: option.splits)
qed

lemma getProp_extendWith:
  "distinct (map fst src) \<Longrightarrow>
   getProp (extendWith t src) k =
     (if getProp src k = JUndefined then getProp t k else getProp src k)"
  by (simp add: getProp_def map_of_extendWith split: option.splits)

lemma axes_distinct: "VERTICAL \<noteq> HORIZONTAL" "HORIZONTAL \<noteq> VERTICAL"
  by (simp_all add: VERTICAL_def HORIZONTAL_def)



lemma normalizeAxisName_alias:
  "key \<in> set altAxisNames \<Longrightarrow> normalizeAxisName key = Inr (canonicalKey key)"
  by (auto simp: normalizeAxisName_def canonicalKey_def isInArray_def altAxisNames_def
        altAxisNamesV_def altAxisNamesH_def altAxisNamesBoth_def VERTICAL_def HORIZONTAL_def
        BOTH_AXES_def Let_def)

lemma canonicalKey_other: "key \<notin> set altAxisNames \<Longrightarrow> canonicalKey key = key"
  by (auto simp: canonicalKey_def altAxisNames_def)

text \<open>
  \<^verbatim>\<open>normalizeAxisProperty\<close> never throws: it is called on recognised names
  only. Its loop is a fold that writes every value to the canonical key.
\<close>

lemma normalizeAxisPropertyLoop_foldl:
  "normalizeAxisPropertyLoop acc h =
     Inr (foldl (\<lambda>a (k, v). setProp a (canonicalKey k) v) acc h)"
proof (induction h arbitrary: acc)
  case Nil
  show ?case by simp
next
  case (Cons kv h)
  obtain k v where kv: "kv = (k, v)" by (cases kv)
  show ?case
    by (cases "k \<in> set altAxisNames")
       (simp_all add: kv Cons.IH isInArray_def normalizeAxisName_alias canonicalKey_other)
qed

text \<open>
  Claim C7. \<^verbatim>\<open>normalizeAxisName\<close> maps the aliases \<^verbatim>\<open>v\<close>, \<^verbatim>\<open>y\<close>, \<^verbatim>\<open>top\<close> to
  \<^verbatim>\<open>vertical\<close>, the aliases \<^verbatim>\<open>h\<close>, \<^verbatim>\<open>x\<close>, \<^verbatim>\<open>left\<close> to \<^verbatim>\<open>horizontal\<close> and
  the aliases \<^verbatim>\<open>vh\<close>, \<^verbatim>\<open>hv\<close>, \<^verbatim>\<open>xy\<close>, \<^verbatim>\<open>yx\<close>, \<^verbatim>\<open>all\<close> to \<^verbatim>\<open>both\<close>; it
  returns each of the three canonical names unchanged; for every other string it
  throws the invalid-axis-name error.
\<close>

theorem normalizeAxisName_total:
  "(name \<in> {''v'', ''y'', ''top''} \<longrightarrow> normalizeAxisName name = Inr ''vertical'') \<and>
   (name \<in> {''h'', ''x'', ''left''} \<longrightarrow> normalizeAxisName name = Inr ''horizontal'') \<and>
   (name \<in> {''vh'', ''hv'', ''xy'', ''yx'', ''all''} \<longrightarrow> normalizeAxisName name = Inr ''both'') \<and>
   (name \<in> {''vertical'', ''horizontal'', ''both''} \<longrightarrow> normalizeAxisName name = Inr name) \<and>
   (name \<notin> {''v'', ''y'', ''top'', ''h'', ''x'', ''left'', ''vh'', ''hv'', ''xy'', ''yx'', ''all'',
              ''vertical'', ''horizontal'', ''both''}
      \<longrightarrow> normalizeAxisName name = Inl (InvalidAxisName name))"
  by (auto simp: normalizeAxisName_def isInArray_def
        altAxisNamesV_def altAxisNamesH_def altAxisNamesBoth_def VERTICAL_def HORIZONTAL_def
        BOTH_AXES_def Let_def)

theorem normalizeAxisName_total_witness:
  "normalizeAxisName ''y'' = Inr ''vertical'' \<and>
   normalizeAxisName ''left'' = Inr ''horizontal'' \<and>
   normalizeAxisName ''all'' = Inr ''both'' \<and>
   normalizeAxisName ''both'' = Inr ''both'' \<and>
   normalizeAxisName ''diagonal'' = Inl (InvalidAxisName ''diagonal'') \<and>
   normalizeAxisName ''V'' = Inl (InvalidAxisName ''V'')"
  using normalizeAxisName_total [of "''y''"] normalizeAxisName_total [of "''left''"]
    normalizeAxisName_total [of "''all''"] normalizeAxisName_total [of "''both''"]
    normalizeAxisName_total [of "''diagonal''"] normalizeAxisName_total [of "''V''"]
  by simp

subsection \<open>The last queued target\<close>

lemma lastPositionStep_horizontal:
  "horizontal (lastPositionStep lst e) = overwriteTarget HORIZONTAL (horizontal lst) e"
  by (simp add: lastPositionStep_def overwriteTarget_def entryTarget_def Let_def
        split: option.splits)

lemma lastPositionStep_vertical:
  "vertical (lastPositionStep lst e) = overwriteTarget VERTICAL (vertical lst) e"
  by (simp add: lastPositionStep_def overwriteTarget_def entryTarget_def Let_def
        VERTICAL_def HORIZONTAL_def split: option.splits)

lemma foldl_lastPositionStep_horizontal:
  "horizontal (foldl lastPositionStep lst q) = foldl (overwriteTarget HORIZONTAL) (horizontal lst) q"
  by (induction q arbitrary: lst) (simp_all add: lastPositionStep_horizontal)

lemma foldl_lastPositionStep_vertical:
  "vertical (foldl lastPositionStep lst q) = foldl (overwriteTarget VERTICAL) (vertical lst) q"
  by (induction q arbitrary: lst) (simp_all add: lastPositionStep_vertical)

lemma lastPositions_eq:
  "lastPositions q =
     \<lparr>horizontal = lastQueuedTarget q HORIZONTAL, vertical = lastQueuedTarget q VERTICAL\<rparr>"
  by (simp add: lastPositions_def lastQueuedTarget_def foldl_lastPositionStep_horizontal
        foldl_lastPositionStep_vertical)


text \<open>
  Claim C4. For every queue snapshot, \<^verbatim>\<open>getLastPositionInfo\<close> returns for each
  axis the result of the fold of the specification: the running value of the
  axis, starting from the ignore-axis value and overwritten, oldest entry first,
  exactly by the targets that are neither undefined nor the ignore-axis value.
  For the snapshot \<^verbatim>\<open>[ { vertical: 50 }, { horizontal: 80 } ]\<close> it returns 50 for
  the vertical and 80 for the horizontal axis.
\<close>

theorem getLastPositionInfo_fold:
  "getLastPositionInfo q (Some HORIZONTAL) = LastAxis (Some (lastQueuedTarget q HORIZONTAL)) \<and>
   getLastPositionInfo q (Some VERTICAL) = LastAxis (Some (lastQueuedTarget q VERTICAL)) \<and>
   getLastPositionInfo q None =
     LastBoth \<lparr>horizontal = lastQueuedTarget q HORIZONTAL,
               vertical = lastQueuedTarget q VERTICAL\<rparr> \<and>
   getLastPositionInfo
     [\<lparr>position = Some \<lparr>qhorizontal = None, qvertical = Some (Fin 50)\<rparr>\<rparr>,
      \<lparr>position = Some \<lparr>qhorizontal = Some (Fin 80), qvertical = None\<rparr>\<rparr>] (Some VERTICAL)
     = LastAxis (Some (Fin 50)) \<and>
   getLastPositionInfo
     [\<lparr>position = Some \<lparr>qhorizontal = None, qvertical = Some (Fin 50)\<rparr>\<rparr>,
      \<lparr>position = Some \<lparr>qhorizontal = Some (Fin 80), qvertical = None\<rparr>\<rparr>] (Some HORIZONTAL)
     = LastAxis (Some (Fin 80))"
  by (simp add: getLastPositionInfo_def readAxis_def lastPositions_eq
        lastQueuedTarget_def overwriteTarget_def entryTarget_def
        HORIZONTAL_def VERTICAL_def BOTH_AXES_def IGNORE_AXIS_def)

subsection \<open>Resolving a single axis\<close>

lemma getScrollMaximum_nonneg: "getScrollMaximum c axis = Fin (of_int m) \<Longrightarrow> 0 \<le> m"
proof -
  assume "getScrollMaximum c axis = Fin (of_int m)"
  then have "(of_int m :: rat) = of_int (int (unat (if axis = HORIZONTAL
      then scrollMaxHorizontal c else scrollMaxVertical c)))"
    by (simp add: getScrollMaximum_def)
  then have "m = int (unat (if axis = HORIZONTAL then scrollMaxHorizontal c
      else scrollMaxVertical c))"
    by (simp only: of_int_eq_iff)
  then show ?thesis by simp
qed

lemma getScrollMaximum_less: "getScrollMaximum c axis = Fin (of_int m) \<Longrightarrow> m < 2 ^ 32"
proof -
  let ?w = "if axis = HORIZONTAL then scrollMaxHorizontal c else scrollMaxVertical c"
  assume "getScrollMaximum c axis = Fin (of_int m)"
  then have "(of_int m :: rat) = of_int (int (unat ?w))"
    by (simp add: getScrollMaximum_def)
  then have "m = int (unat ?w)"
    by (simp only: of_int_eq_iff)
  moreover have "uint ?w < 2 ^ 32"
    using uint_lt2p [of ?w] by simp
  ultimately show ?thesis by simp
qed

lemma limitToScrollRange_int:
  "getScrollMaximum c axis = Fin (of_int m) \<Longrightarrow>
   limitToScrollRange (Fin (of_int k)) c axis = Fin (of_int (max (min k m) 0))"
  by (simp add: limitToScrollRange_def of_int_max of_int_min)

lemma normalizePositionForAxis_number:
  assumes "getProp options ''axis'' = JStr axis" and "axis = HORIZONTAL \<or> axis = VERTICAL"
  shows "normalizePositionForAxis (JNum (Fin n)) c options q =
           Inr (singleAxis axis (limitToScrollRange (Fin (of_int (round n))) c axis))"
  using assms by (auto simp: normalizePositionForAxis_def)

lemma normalizePositionForAxis_string:
  assumes "getProp options ''axis'' = JStr axis" and "axis = HORIZONTAL \<or> axis = VERTICAL"
    and "relativePrefix (toLowerCase s) c q axis (getScrollMode options) = (s', sg, base)"
  shows "normalizePositionForAxis (JStr s) c options q =
           (case resolveUnits s' c axis of
              Inl e \<Rightarrow> Inl e
            | Inr v \<Rightarrow>
                if isNumber v
                then Inr (singleAxis axis
                       (limitToScrollRange
                          (Math_round (js_add base (js_mul sg (numberValue v)))) c axis))
                else if isUndefinedPositionValue v
                then Inr (singleAxis axis
                       (if getScrollMode options = MODE_MERGE then queuedTarget q axis
                        else IGNORE_AXIS))
                else Inl (InvalidPositionValue (JStr s)))"
  using assms by (auto simp: normalizePositionForAxis_def split: sum.splits)

text \<open>
  Claim C1. For every finite number \<open>n\<close>, every container whose scroll maximum
  on the axis is an integer \<open>m \<ge> 0\<close> and each of the two single axes, resolving
  the number returns (and does not throw) the pair whose slot for the axis is
  \<open>max (min (round n) m) 0\<close> and whose other slot is the ignore-axis value. This
  holds in every scroll mode, the replace mode among them.
\<close>

theorem normalizePosition_number:
  assumes "axis = HORIZONTAL \<or> axis = VERTICAL"
    and "getProp options ''axis'' = JStr axis"
    and "getScrollMaximum c axis = Fin (of_int m)" and "0 \<le> m"
  shows "normalizePosition (JNum (Fin n)) c s options =
           Inr (if axis = HORIZONTAL
                then \<lparr>horizontal = Fin (of_int (max (min (round n) m) 0)),
                      vertical = IGNORE_AXIS\<rparr>
                else \<lparr>horizontal = IGNORE_AXIS,
                      vertical = Fin (of_int (max (min (round n) m) 0))\<rparr>)"
  using assms
  by (simp add: normalizePosition_def normalizePositionForAxis_number limitToScrollRange_int
        singleAxis_def)

theorem normalizePosition_number_witness:
  "normalizePosition (JNum (Fin (2501 / 2))) exampleContainer (\<lambda>name. [])
      [(''axis'', JStr ''vertical''), (''queue'', JStr ''internal.jquery.scrollable'')]
     = Inr \<lparr>horizontal = IGNORE_AXIS, vertical = Fin 1000\<rparr> \<and>
   normalizePosition (JNum (Fin (-5))) exampleContainer (\<lambda>name. [])
      [(''axis'', JStr ''horizontal''), (''queue'', JStr ''internal.jquery.scrollable'')]
     = Inr \<lparr>horizontal = Fin 0, vertical = IGNORE_AXIS\<rparr> \<and>
   normalizePosition (JNum (Fin (5 / 2))) exampleContainer (\<lambda>name. [])
      [(''axis'', JStr ''vertical''), (''queue'', JStr ''internal.jquery.scrollable'')]
     = Inr \<lparr>horizontal = IGNORE_AXIS, vertical = Fin 3\<rparr>"
  using normalizePosition_number [of VERTICAL "[(''axis'', JStr ''vertical''), (''queue'', JStr ''internal.jquery.scrollable'')]"
              exampleContainer 1000 "2501 / 2" "\<lambda>name. []"]
        normalizePosition_number [of HORIZONTAL "[(''axis'', JStr ''horizontal''), (''queue'', JStr ''internal.jquery.scrollable'')]"
              exampleContainer 500 "-5" "\<lambda>name. []"]
        normalizePosition_number [of VERTICAL "[(''axis'', JStr ''vertical''), (''queue'', JStr ''internal.jquery.scrollable'')]"
              exampleContainer 1000 "5 / 2" "\<lambda>name. []"]
  by (simp add: getScrollMaximum_def exampleContainer_def VERTICAL_def HORIZONTAL_def getProp_def
        round_def)

lemma toLowerCase_append: "toLowerCase (a @ b) = toLowerCase a @ toLowerCase b"
  by (simp add: toLowerCase_def)

lemma toLowerCase_keywords:
  "toLowerCase ''top'' = ''top''" "toLowerCase ''bottom'' = ''bottom''"
  "toLowerCase ''left'' = ''left''" "toLowerCase ''right'' = ''right''"
  "toLowerCase ''+='' = ''+=''" "toLowerCase ''-='' = ''-=''"
  "toLowerCase ''50%'' = ''50%''"
  by code_simp+

lemma relativePrefix_keywords:
  "relativePrefix ''top'' c q axis mode = (''top'', Fin 1, Fin 0)"
  "relativePrefix ''bottom'' c q axis mode = (''bottom'', Fin 1, Fin 0)"
  "relativePrefix ''left'' c q axis mode = (''left'', Fin 1, Fin 0)"
  "relativePrefix ''right'' c q axis mode = (''right'', Fin 1, Fin 0)"
  "relativePrefix ''50%'' c q axis mode = (''50%'', Fin 1, Fin 0)"
  by (simp_all add: relativePrefix_def slice_def sliceIndex_def)

lemma relativePrefix_plus:
  "relativePrefix (CHR ''+'' # CHR ''='' # t) c q axis mode = (t, Fin 1, getStartScrollPosition c q axis mode)"
  by (simp add: relativePrefix_def slice_def sliceIndex_def)

lemma relativePrefix_minus:
  "relativePrefix (CHR ''-'' # CHR ''='' # t) c q axis mode = (t, Fin (-1), getStartScrollPosition c q axis mode)"
  by (simp add: relativePrefix_def slice_def sliceIndex_def)

lemma resolveUnits_mismatch_horizontal:
  "p = ''top'' \<or> p = ''bottom'' \<Longrightarrow>
   resolveUnits p c HORIZONTAL = Inl (AxisKeywordMismatch p HORIZONTAL)"
  by (auto simp: resolveUnits_def resolvePositionString_def slice_def sliceIndex_def)

lemma resolveUnits_mismatch_vertical:
  "p = ''left'' \<or> p = ''right'' \<Longrightarrow>
   resolveUnits p c VERTICAL = Inl (AxisKeywordMismatch p VERTICAL)"
  by (auto simp: resolveUnits_def resolvePositionString_def slice_def sliceIndex_def
        VERTICAL_def HORIZONTAL_def)

lemma toLowerCase_relative:
  "toLowerCase (CHR ''+'' # CHR ''='' # t) = CHR ''+'' # CHR ''='' # toLowerCase t"
  "toLowerCase (CHR ''-'' # CHR ''='' # t) = CHR ''-'' # CHR ''='' # toLowerCase t"
  using toLowerCase_append [of "''+=''" t] toLowerCase_append [of "''-=''" t]
  by (simp_all add: toLowerCase_keywords)

text \<open>
  Claim C8. For every container, queue and scroll mode, resolving the position
  string \<^verbatim>\<open>top\<close> or \<^verbatim>\<open>bottom\<close> (in any letter case) with the axis option
  \<^verbatim>\<open>horizontal\<close> throws the keyword mismatch error, and so does resolving
  \<^verbatim>\<open>left\<close> or \<^verbatim>\<open>right\<close> with the axis option \<^verbatim>\<open>vertical\<close>; no pair is
  returned.
\<close>

theorem normalizePosition_keyword_mismatch:
  "(getProp options ''axis'' = JStr ''horizontal'' \<and>
      (toLowerCase p = ''top'' \<or> toLowerCase p = ''bottom'') \<longrightarrow>
      normalizePosition (JStr p) c s options
        = Inl (AxisKeywordMismatch (toLowerCase p) ''horizontal'')) \<and>
   (getProp options ''axis'' = JStr ''vertical'' \<and>
      (toLowerCase p = ''left'' \<or> toLowerCase p = ''right'') \<longrightarrow>
      normalizePosition (JStr p) c s options
        = Inl (AxisKeywordMismatch (toLowerCase p) ''vertical''))"
proof (intro conjI impI)
  let ?q = "QueueWrapper s (getProp options ''queue'')"
  assume a: "getProp options ''axis'' = JStr ''horizontal'' \<and>
      (toLowerCase p = ''top'' \<or> toLowerCase p = ''bottom'')"
  then have ax: "getProp options ''axis'' = JStr HORIZONTAL"
    by (simp add: HORIZONTAL_def)
  from a have rp: "relativePrefix (toLowerCase p) c ?q HORIZONTAL (getScrollMode options)
      = (toLowerCase p, Fin 1, Fin 0)"
    by (auto simp: relativePrefix_keywords)
  from a have ru: "resolveUnits (toLowerCase p) c HORIZONTAL
      = Inl (AxisKeywordMismatch (toLowerCase p) HORIZONTAL)"
    by (simp add: resolveUnits_mismatch_horizontal)
  show "normalizePosition (JStr p) c s options
        = Inl (AxisKeywordMismatch (toLowerCase p) ''horizontal'')"
    using normalizePositionForAxis_string [OF ax _ rp] ru
    by (simp add: normalizePosition_def HORIZONTAL_def)
next
  let ?q = "QueueWrapper s (getProp options ''queue'')"
  assume a: "getProp options ''axis'' = JStr ''vertical'' \<and>
      (toLowerCase p = ''left'' \<or> toLowerCase p = ''right'')"
  then have ax: "getProp options ''axis'' = JStr VERTICAL"
    by (simp add: VERTICAL_def)
  from a have rp: "relativePrefix (toLowerCase p) c ?q VERTICAL (getScrollMode options)
      = (toLowerCase p, Fin 1, Fin 0)"
    by (auto simp: relativePrefix_keywords)
  from a have ru: "resolveUnits (toLowerCase p) c VERTICAL
      = Inl (AxisKeywordMismatch (toLowerCase p) VERTICAL)"
    by (simp add: resolveUnits_mismatch_vertical)
  show "normalizePosition (JStr p) c s options
        = Inl (AxisKeywordMismatch (toLowerCase p) ''vertical'')"
    using normalizePositionForAxis_string [OF ax _ rp] ru
    by (simp add: normalizePosition_def VERTICAL_def)
qed

lemma toLowerCase_examples:
  "toLowerCase ''Bottom'' = ''bottom''" "toLowerCase ''LEFT'' = ''left''"
  by code_simp+

theorem normalizePosition_keyword_mismatch_witness:
  "normalizePosition (JStr ''top'') exampleContainer (\<lambda>name. [])
      [(''axis'', JStr ''horizontal''), (''queue'', JStr ''internal.jquery.scrollable'')]
     = Inl (AxisKeywordMismatch ''top'' ''horizontal'') \<and>
   normalizePosition (JStr ''Bottom'') exampleContainer (\<lambda>name. [])
      [(''axis'', JStr ''horizontal''), (''merge'', JBool True)]
     = Inl (AxisKeywordMismatch ''bottom'' ''horizontal'') \<and>
   normalizePosition (JStr ''LEFT'') exampleContainer (\<lambda>name. [])
      [(''axis'', JStr ''vertical''), (''append'', JBool True)]
     = Inl (AxisKeywordMismatch ''left'' ''vertical'') \<and>
   normalizePosition (JStr ''right'') exampleContainer (\<lambda>name. [])
      [(''axis'', JStr ''vertical'')]
     = Inl (AxisKeywordMismatch ''right'' ''vertical'')"
  using
    normalizePosition_keyword_mismatch [of "[(''axis'', JStr ''horizontal''), (''queue'', JStr ''internal.jquery.scrollable'')]"
       "''top''" exampleContainer "\<lambda>name. []"]
    normalizePosition_keyword_mismatch [of "[(''axis'', JStr ''horizontal''), (''merge'', JBool True)]"
       "''Bottom''" exampleContainer "\<lambda>name. []"]
    normalizePosition_keyword_mismatch [of "[(''axis'', JStr ''vertical''), (''append'', JBool True)]"
       "''LEFT''" exampleContainer "\<lambda>name. []"]
    normalizePosition_keyword_mismatch [of "[(''axis'', JStr ''vertical'')]"
       "''right''" exampleContainer "\<lambda>name. []"]
  by (simp add: getProp_def toLowerCase_keywords toLowerCase_examples)

lemma parseFloat_50: "parseFloat ''50'' = Fin 50"
  by code_simp

lemma isNumeric_50: "isNumeric ''50''"
  by code_simp

text \<open>
  A scroll maximum is below \<open>2\<^sup>3\<^sup>2\<close>, so 50 times the maximum and half the
  maximum are doubles: no rounding occurs in \<^verbatim>\<open>50 * max / 100\<close> and in
  \<^verbatim>\<open>0.5 * max\<close>.
\<close>

lemma percent_50:
  assumes "0 \<le> m" and "m < 2 ^ 32"
  shows "js_div (js_mul (Fin 50) (Fin (of_int m))) (Fin 100) = Fin (of_int m / 2)"
proof -
  have "js_mul (Fin 50) (Fin (of_int m)) = Fin (of_int (50 * m))"
    using toDouble_int [of "50 * m"] assms by auto
  moreover have "toDouble (of_int (50 * m) / 100) = Fin (of_int m / 2)"
    using toDouble_half [of m] assms by simp
  ultimately show ?thesis by simp
qed

lemma half_max:
  assumes "0 \<le> m" and "m < 2 ^ 32"
  shows "js_mul (Fin (1 / 2)) (Fin (of_int m)) = Fin (of_int m / 2)"
  using toDouble_half [of m] assms by auto

lemma resolveUnits_50_percent:
  assumes "getScrollMaximum c axis = Fin (of_int m)"
  shows "resolveUnits ''50%'' c axis = Inr (JNum (Fin (of_int m / 2)))"
  using assms percent_50 [OF getScrollMaximum_nonneg [OF assms] getScrollMaximum_less [OF assms]]
  by (simp add: resolveUnits_def slice_def sliceIndex_def parseFloat_50)

lemma round_half_int: "round (of_int m / 2 :: rat) = (m + 1) div 2"
proof -
  have "of_int m / 2 + 1 / 2 = (of_int (m + 1) / of_int 2 :: rat)"
    by (simp add: field_simps)
  then show ?thesis
    unfolding round_def by (simp only: floor_divide_of_int_eq)
qed

text \<open>
  Claim C9. For every container whose vertical scroll maximum is an integer
  \<open>m \<ge> 0\<close>, resolving the string \<^verbatim>\<open>50%\<close> on the vertical axis yields the same
  result as resolving the number \<^verbatim>\<open>Math.round( 0.5 * max )\<close> with the same
  options, and this result is the pair with the vertical slot \<open>round (m / 2)\<close>.
  No prefix is involved, so the scroll mode does not matter. A scroll maximum
  is below \<open>2\<^sup>3\<^sup>2\<close>, so \<^verbatim>\<open>50 * max / 100\<close> and \<^verbatim>\<open>0.5 * max\<close> are computed
  without rounding and both are \<open>m / 2\<close>.
\<close>

theorem normalizePosition_percent_round_trip:
  assumes "getProp options ''axis'' = JStr ''vertical''"
    and "getScrollMaximum c ''vertical'' = Fin (of_int m)" and "0 \<le> m"
  shows "normalizePosition (JStr ''50%'') c s options =
           normalizePosition
             (JNum (Math_round (js_mul (Fin (1 / 2)) (getScrollMaximum c ''vertical''))))
             c s options \<and>
         normalizePosition (JStr ''50%'') c s options =
           Inr \<lparr>horizontal = IGNORE_AXIS, vertical = Fin (of_int (round (of_int m / 2 :: rat)))\<rparr>"
proof -
  let ?q = "QueueWrapper s (getProp options ''queue'')"
  have ax: "getProp options ''axis'' = JStr VERTICAL"
    using assms(1) by (simp add: VERTICAL_def)
  have mx: "getScrollMaximum c VERTICAL = Fin (of_int m)"
    using assms(2) by (simp add: VERTICAL_def)
  have rp: "relativePrefix (toLowerCase ''50%'') c ?q VERTICAL (getScrollMode options)
      = (''50%'', Fin 1, Fin 0)"
    by (simp add: toLowerCase_keywords relativePrefix_keywords)
  have clamp: "max (min ((m + 1) div 2) m) 0 = (m + 1) div 2"
    using assms(3) by linarith
  have str: "normalizePosition (JStr ''50%'') c s options =
      Inr (singleAxis VERTICAL (Fin (of_int (round (of_int m / 2 :: rat)))))"
    using normalizePositionForAxis_string [OF ax _ rp] resolveUnits_50_percent [OF mx]
      limitToScrollRange_int [OF mx, of "round (of_int m / 2 :: rat)"] clamp
    by (simp add: normalizePosition_def round_half_int)
  have num: "normalizePosition
      (JNum (Math_round (js_mul (Fin (1 / 2)) (getScrollMaximum c ''vertical'')))) c s options =
      Inr (singleAxis VERTICAL (Fin (of_int (round (of_int m / 2 :: rat)))))"
    using normalizePositionForAxis_number [OF ax, of "of_int (round (of_int m / 2 :: rat))" c ?q]
      limitToScrollRange_int [OF mx, of "round (of_int m / 2 :: rat)"] clamp assms(2)
      half_max [OF assms(3) getScrollMaximum_less [OF assms(2)]]
    by (simp add: normalizePosition_def round_half_int)
  show ?thesis
    using str num by (simp add: singleAxis_def VERTICAL_def HORIZONTAL_def)
qed

theorem normalizePosition_percent_round_trip_witness:
  "normalizePosition (JStr ''50%'') exampleContainer (\<lambda>name. [])
      [(''axis'', JStr ''vertical''), (''queue'', JStr ''internal.jquery.scrollable'')]
     = normalizePosition (JNum (Fin 500)) exampleContainer (\<lambda>name. [])
      [(''axis'', JStr ''vertical''), (''queue'', JStr ''internal.jquery.scrollable'')] \<and>
   normalizePosition (JStr ''50%'') exampleContainer (\<lambda>name. [])
      [(''axis'', JStr ''vertical''), (''queue'', JStr ''internal.jquery.scrollable'')]
     = Inr \<lparr>horizontal = IGNORE_AXIS, vertical = Fin 500\<rparr>"
  using normalizePosition_percent_round_trip [of "[(''axis'', JStr ''vertical''), (''queue'', JStr ''internal.jquery.scrollable'')]"
       exampleContainer 1000 "\<lambda>name. []"] toDouble_int [of 500]
  by (auto simp: getProp_def getScrollMaximum_def exampleContainer_def HORIZONTAL_def)

lemma getStartScrollPosition_eq:
  assumes "axis = HORIZONTAL \<or> axis = VERTICAL"
  shows "getStartScrollPosition c q axis mode =
           (if mode = MODE_REPLACE \<or> lastQueuedTarget q axis = IGNORE_AXIS
            then getCurrentScrollPosition c axis else lastQueuedTarget q axis)"
  using assms
  by (cases mode)
     (auto simp: getStartScrollPosition_def getLastPositionInfo_def readAxis_def lastPositions_eq
        HORIZONTAL_def VERTICAL_def BOTH_AXES_def)

text \<open>
  Claim C2. A string with the prefix \<^verbatim>\<open>+=\<close> (sign 1) or \<^verbatim>\<open>-=\<close> (sign -1),
  whose suffix the unit rules resolve to the finite number \<open>v\<close>, resolves on a
  single axis to \<open>max (min (round (base + sign * v)) m) 0\<close>, the sum and the
  product being those of JavaScript; a sum beyond the doubles is limited like
  any other number, to the maximum or to 0. The live current position is
  \<^verbatim>\<open>scrollLeft\<close> on the horizontal axis and \<^verbatim>\<open>scrollTop\<close> on the vertical one.
  The base is the live current position in replace mode; in append and merge
  mode it is the last queued target of the axis if the queue defines one (a
  value other than the ignore-axis value), and the live current position
  otherwise.
\<close>

theorem normalizePosition_relative:
  assumes "axis = HORIZONTAL \<or> axis = VERTICAL"
    and "getProp options ''axis'' = JStr axis"
    and "(p = ''+='' @ t \<and> sg = 1) \<or> (p = ''-='' @ t \<and> sg = -1)"
    and "resolveUnits (toLowerCase t) c axis = Inr (JNum (Fin v))"
    and "getScrollMaximum c axis = Fin (of_int m)"
    and "scrollLeft c = Fin cl" and "scrollTop c = Fin ct"
    and "live = (if axis = HORIZONTAL then cl else ct)"
    and "lastQueuedTarget (QueueWrapper s (getProp options ''queue'')) axis = Fin queued"
    and "base = (if getScrollMode options = MODE_REPLACE then live
                 else if Fin queued \<noteq> IGNORE_AXIS then queued else live)"
    and "slot = (case js_add (Fin base) (js_mul (Fin sg) (Fin v)) of
                   Fin r \<Rightarrow> Fin (of_int (max (min (round r) m) 0))
                 | PosInf \<Rightarrow> Fin (of_int m)
                 | NegInf \<Rightarrow> Fin 0
                 | NaN \<Rightarrow> NaN)"
  shows "normalizePosition (JStr p) c s options =
           Inr (if axis = HORIZONTAL then \<lparr>horizontal = slot, vertical = IGNORE_AXIS\<rparr>
                else \<lparr>horizontal = IGNORE_AXIS, vertical = slot\<rparr>)"
proof -
  let ?q = "QueueWrapper s (getProp options ''queue'')"
  have cur: "getCurrentScrollPosition c axis = Fin live"
    using assms(1,6,7,8) by (auto simp: getCurrentScrollPosition_def axes_distinct)
  have start: "getStartScrollPosition c ?q axis (getScrollMode options) = Fin base"
    using cur assms(9,10) by (simp add: getStartScrollPosition_eq [OF assms(1)])
  have rp: "relativePrefix (toLowerCase p) c ?q axis (getScrollMode options)
      = (toLowerCase t, Fin sg, Fin base)"
    using assms(3) start
    by (auto simp: toLowerCase_relative relativePrefix_plus relativePrefix_minus)
  have m: "0 \<le> m"
    using assms(5) by (rule getScrollMaximum_nonneg)
  have "limitToScrollRange (Math_round x) c axis =
      (case x of
         Fin r \<Rightarrow> Fin (of_int (max (min (round r) m) 0))
       | PosInf \<Rightarrow> Fin (of_int m)
       | NegInf \<Rightarrow> Fin 0
       | NaN \<Rightarrow> NaN)" for x
    using limitToScrollRange_int [OF assms(5)] m assms(5)
    by (cases x) (simp_all add: limitToScrollRange_def)
  then show ?thesis
    using normalizePositionForAxis_string [OF assms(2) assms(1) rp] assms(4,11)
    by (simp add: normalizePosition_def singleAxis_def)
qed

theorem normalizePosition_relative_witness:
  "normalizePosition (JStr ''+=50'') exampleContainer (\<lambda>name. [])
      [(''axis'', JStr ''vertical''), (''queue'', JStr ''internal.jquery.scrollable'')]
     = Inr \<lparr>horizontal = IGNORE_AXIS, vertical = Fin 150\<rparr> \<and>
   normalizePosition (JStr ''+=50'') exampleContainer (\<lambda>name. [])
      [(''axis'', JStr ''horizontal''), (''queue'', JStr ''internal.jquery.scrollable'')]
     = Inr \<lparr>horizontal = Fin 50, vertical = IGNORE_AXIS\<rparr> \<and>
   normalizePosition (JStr ''+=50'') exampleContainer (\<lambda>name. exampleQueue)
      [(''axis'', JStr ''vertical''), (''queue'', JStr ''internal.jquery.scrollable''),
       (''append'', JBool True)]
     = Inr \<lparr>horizontal = IGNORE_AXIS, vertical = Fin 350\<rparr> \<and>
   normalizePosition (JStr ''-=50'') exampleContainer (\<lambda>name. exampleQueue)
      [(''axis'', JStr ''vertical''), (''queue'', JStr ''internal.jquery.scrollable''),
       (''merge'', JBool True)]
     = Inr \<lparr>horizontal = IGNORE_AXIS, vertical = Fin 250\<rparr> \<and>
   normalizePosition (JStr ''-=50'') exampleContainer (\<lambda>name. [])
      [(''axis'', JStr ''vertical''), (''queue'', JStr ''internal.jquery.scrollable''),
       (''merge'', JBool True)]
     = Inr \<lparr>horizontal = IGNORE_AXIS, vertical = Fin 50\<rparr> \<and>
   normalizePosition (JStr ''+=9.2%'') shortContainer (\<lambda>name. [])
      [(''axis'', JStr ''vertical''), (''queue'', JStr ''internal.jquery.scrollable'')]
     = Inr \<lparr>horizontal = IGNORE_AXIS, vertical = Fin 34\<rparr>"
proof -
  have replace: "normalizePosition (JStr ''+=50'') exampleContainer (\<lambda>name. [])
      [(''axis'', JStr ''vertical''), (''queue'', JStr ''internal.jquery.scrollable'')]
      = Inr (if VERTICAL = HORIZONTAL then \<lparr>horizontal = Fin 150, vertical = IGNORE_AXIS\<rparr>
             else \<lparr>horizontal = IGNORE_AXIS, vertical = Fin 150\<rparr>)"
    by (rule normalizePosition_relative [where t = "''50''" and sg = "1" and v = "50"
          and m = 1000 and cl = 0 and ct = 100 and live = 100 and queued = "- 999" and base = 100];
        code_simp)
  have left: "normalizePosition (JStr ''+=50'') exampleContainer (\<lambda>name. [])
      [(''axis'', JStr ''horizontal''), (''queue'', JStr ''internal.jquery.scrollable'')]
      = Inr (if HORIZONTAL = HORIZONTAL then \<lparr>horizontal = Fin 50, vertical = IGNORE_AXIS\<rparr>
             else \<lparr>horizontal = IGNORE_AXIS, vertical = Fin 50\<rparr>)"
    by (rule normalizePosition_relative [where t = "''50''" and sg = "1" and v = "50"
          and m = 500 and cl = 0 and ct = 100 and live = 0 and queued = "- 999" and base = 0];
        code_simp)
  have append: "normalizePosition (JStr ''+=50'') exampleContainer (\<lambda>name. exampleQueue)
      [(''axis'', JStr ''vertical''), (''queue'', JStr ''internal.jquery.scrollable''),
       (''append'', JBool True)]
      = Inr (if VERTICAL = HORIZONTAL then \<lparr>horizontal = Fin 350, vertical = IGNORE_AXIS\<rparr>
             else \<lparr>horizontal = IGNORE_AXIS, vertical = Fin 350\<rparr>)"
    by (rule normalizePosition_relative [where t = "''50''" and sg = "1" and v = "50"
          and m = 1000 and cl = 0 and ct = 100 and live = 100 and queued = "300" and base = 300];
        code_simp)
  have merge: "normalizePosition (JStr ''-=50'') exampleContainer (\<lambda>name. exampleQueue)
      [(''axis'', JStr ''vertical''), (''queue'', JStr ''internal.jquery.scrollable''),
       (''merge'', JBool True)]
      = Inr (if VERTICAL = HORIZONTAL then \<lparr>horizontal = Fin 250, vertical = IGNORE_AXIS\<rparr>
             else \<lparr>horizontal = IGNORE_AXIS, vertical = Fin 250\<rparr>)"
    by (rule normalizePosition_relative [where t = "''50''" and sg = "- 1" and v = "50"
          and m = 1000 and cl = 0 and ct = 100 and live = 100 and queued = "300" and base = 300];
        code_simp)
  have empty: "normalizePosition (JStr ''-=50'') exampleContainer (\<lambda>name. [])
      [(''axis'', JStr ''vertical''), (''queue'', JStr ''internal.jquery.scrollable''),
       (''merge'', JBool True)]
      = Inr (if VERTICAL = HORIZONTAL then \<lparr>horizontal = Fin 50, vertical = IGNORE_AXIS\<rparr>
             else \<lparr>horizontal = IGNORE_AXIS, vertical = Fin 50\<rparr>)"
    by (rule normalizePosition_relative [where t = "''50''" and sg = "- 1" and v = "50"
          and m = 1000 and cl = 0 and ct = 100 and live = 100 and queued = "- 999" and base = 100];
        code_simp)
  have percent: "normalizePosition (JStr ''+=9.2%'') shortContainer (\<lambda>name. [])
      [(''axis'', JStr ''vertical''), (''queue'', JStr ''internal.jquery.scrollable'')]
      = Inr (if VERTICAL = HORIZONTAL then \<lparr>horizontal = Fin 34, vertical = IGNORE_AXIS\<rparr>
             else \<lparr>horizontal = IGNORE_AXIS, vertical = Fin 34\<rparr>)"
    by (rule normalizePosition_relative [where t = "''9.2%''" and sg = "1" and v = "4855443348258815 / 140737488355328"
          and m = 375 and cl = 7 and ct = 0 and live = 0 and queued = "- 999" and base = 0];
        code_simp)
  show ?thesis
    using replace left append merge empty percent by (simp add: axes_distinct)
qed

subsection \<open>The range of the result\<close>




























subsection \<open>The axis option\<close>

lemma normalizeAxisProperty_eq: "normalizeAxisProperty h = Inr (canonicalizeAxisKeys h)"
  by (simp add: normalizeAxisProperty_def canonicalizeAxisKeys_def normalizeAxisPropertyLoop_foldl)

lemma canonicalKey_axis:
  "(canonicalKey k = ''axis'') = (k = ''axis'')" "(''axis'' = canonicalKey k) = (k = ''axis'')"
  by (auto simp: canonicalKey_def altAxisNamesV_def altAxisNamesH_def altAxisNamesBoth_def
        VERTICAL_def HORIZONTAL_def BOTH_AXES_def)

lemma canonical_fold_axis:
  "distinct (map fst h) \<Longrightarrow>
   map_of (foldl (\<lambda>a (k, v). setProp a (canonicalKey k) v) acc h) ''axis'' =
     (case map_of h ''axis'' of Some v \<Rightarrow> Some v | None \<Rightarrow> map_of acc ''axis'')"
proof (induction h arbitrary: acc)
  case Nil
  show ?case by simp
next
  case (Cons kv h)
  obtain k v where kv: "kv = (k, v)" by (cases kv)
  show ?case
  proof (cases "k = ''axis''")
    case True
    then have "map_of h ''axis'' = None"
      using Cons.prems kv by (simp add: map_of_eq_None_iff)
    then show ?thesis
      using Cons.IH [of "setProp acc (canonicalKey k) v"] Cons.prems kv True
      by (simp add: map_of_setProp canonicalKey_axis)
  next
    case False
    then show ?thesis
      using Cons.IH [of "setProp acc (canonicalKey k) v"] Cons.prems kv
      by (simp add: map_of_setProp canonicalKey_axis split: option.splits)
  qed
qed

lemma canonical_fold_distinct:
  "distinct (map fst acc) \<Longrightarrow>
   distinct (map fst (foldl (\<lambda>a (k, v). setProp a (canonicalKey k) v) acc h))"
  by (induction h arbitrary: acc) (auto simp: distinct_setProp)

lemma getProp_canonicalizeAxisKeys_axis:
  "distinct (map fst h) \<Longrightarrow> getProp (canonicalizeAxisKeys h) ''axis'' = getProp h ''axis''"
  by (simp add: getProp_def canonicalizeAxisKeys_def canonical_fold_axis split: option.splits)

lemma distinct_canonicalizeAxisKeys: "distinct (map fst (canonicalizeAxisKeys h))"
  by (simp add: canonicalizeAxisKeys_def canonical_fold_distinct)

lemma getProp_extend_options:
  "distinct (map fst opts) \<Longrightarrow>
   getProp (jQuery_extend [defaults, [(''axis'', JStr d)], opts]) ''axis'' =
     (if getProp opts ''axis'' = JUndefined then JStr d else getProp opts ''axis'')"
proof -
  have single: "extendWith t [(''axis'', JStr d)] = setProp t ''axis'' (JStr d)" for t
    by (simp add: extendWith_def)
  assume "distinct (map fst opts)"
  then show ?thesis
    by (simp add: jQuery_extend_def getProp_extendWith single getProp_setProp)
qed

lemma axisDefault_eq:
  "normalizeOptions options pos =
     (case (case options of None \<Rightarrow> Inr [] | Some h \<Rightarrow> normalizeAxisProperty h) of
        Inl e \<Rightarrow> Inl e
      | Inr options' \<Rightarrow>
          Inr (jQuery_extend [defaults, [(''axis'', JStr (derivedAxisDefault pos))], options']))"
  by (cases pos)
     (auto simp: normalizeOptions_def derivedAxisDefault_def normalizeAxisProperty_eq
        presentAxis_def isUndefinedPositionValue_def defaultsAxis_def Let_def
        split: sum.splits option.splits)

text \<open>
  Claim C6, amended. \<^verbatim>\<open>normalizeOptions\<close> derives the default axis in the order
  of the specification: \<^verbatim>\<open>both\<close> for a hash with both axes present and not
  ignorable, the one axis for a hash with exactly one axis present, \<^verbatim>\<open>vertical\<close>
  for the strings \<^verbatim>\<open>top\<close> and \<^verbatim>\<open>bottom\<close> and \<^verbatim>\<open>horizontal\<close> for \<^verbatim>\<open>left\<close>
  and \<^verbatim>\<open>right\<close> in any letter case, \<^verbatim>\<open>vertical\<close> otherwise. An axis option
  that is supplied (with a value other than \<^verbatim>\<open>undefined\<close>) overrides the default
  with the value as it was supplied: the keys of the options are made canonical,
  the value of the axis option is not.
\<close>

theorem normalizeOptions_axis:
  assumes "distinct (map fst opts)"
  shows "map_sum id (\<lambda>r. getProp r ''axis'') (normalizeOptions (Some opts) pos) =
           Inr (if getProp opts ''axis'' = JUndefined then JStr (derivedAxisDefault pos)
                else getProp opts ''axis'') \<and>
         map_sum id (\<lambda>r. getProp r ''axis'') (normalizeOptions None pos) =
           Inr (JStr (derivedAxisDefault pos))"
  using assms
  by (simp add: axisDefault_eq normalizeAxisProperty_eq getProp_extend_options
        distinct_canonicalizeAxisKeys getProp_canonicalizeAxisKeys_axis)
     (simp add: getProp_def)

lemma derivedAxisDefault_examples:
  "derivedAxisDefault (JObj [(''x'', JNum (Fin 100)), (''y'', JStr ''top'')]) = ''both''"
  "derivedAxisDefault (JObj [(''x'', JNum (Fin 100)), (''y'', JNull)]) = ''horizontal''"
  "derivedAxisDefault (JObj [(''v'', JNum (Fin 100))]) = ''vertical''"
  "derivedAxisDefault (JStr ''Right'') = ''horizontal''"
  "derivedAxisDefault (JStr ''50%'') = ''vertical''"
  by code_simp+

theorem normalizeOptions_axis_witness:
  "map_sum id (\<lambda>r. getProp r ''axis'')
     (normalizeOptions (Some [(''duration'', JNum (Fin 2000))])
        (JObj [(''x'', JNum (Fin 100)), (''y'', JStr ''top'')])) = Inr (JStr ''both'') \<and>
   map_sum id (\<lambda>r. getProp r ''axis'')
     (normalizeOptions None (JObj [(''x'', JNum (Fin 100)), (''y'', JNull)]))
     = Inr (JStr ''horizontal'') \<and>
   map_sum id (\<lambda>r. getProp r ''axis'')
     (normalizeOptions (Some [(''axis'', JUndefined)]) (JObj [(''v'', JNum (Fin 100))]))
     = Inr (JStr ''vertical'') \<and>
   map_sum id (\<lambda>r. getProp r ''axis'')
     (normalizeOptions (Some []) (JStr ''Right'')) = Inr (JStr ''horizontal'') \<and>
   map_sum id (\<lambda>r. getProp r ''axis'')
     (normalizeOptions (Some [(''axis'', JStr ''horizontal''), (''merge'', JBool True)])
        (JStr ''50%'')) = Inr (JStr ''horizontal'')"
  using
    normalizeOptions_axis [of "[(''duration'', JNum (Fin 2000))]"
      "JObj [(''x'', JNum (Fin 100)), (''y'', JStr ''top'')]"]
    normalizeOptions_axis [of "[]" "JObj [(''x'', JNum (Fin 100)), (''y'', JNull)]"]
    normalizeOptions_axis [of "[(''axis'', JUndefined)]" "JObj [(''v'', JNum (Fin 100))]"]
    normalizeOptions_axis [of "[]" "JStr ''Right''"]
    normalizeOptions_axis [of "[(''axis'', JStr ''horizontal''), (''merge'', JBool True)]"
      "JStr ''50%''"]
  by (simp add: derivedAxisDefault_examples getProp_def)

theorem normalizeOptions_axis_value_not_canonical:
  "map_sum id (\<lambda>r. getProp r ''axis'')
     (normalizeOptions (Some [(''axis'', JStr ''x'')]) (JNum (Fin 100))) = Inr (JStr ''x'') \<and>
   normalizeAxisName ''x'' = Inr ''horizontal''"
  by code_simp

subsection \<open>Hash positions\<close>










text \<open>
  Claim C3. The claim: for a hash position, the slot of an axis that the axis
  option excludes is the last queued target exactly when the scroll mode is
  merge, and the ignore-axis value in replace and append mode. The hash branch
  tests \<^verbatim>\<open>options.merge\<close> and not the scroll mode: with \<^verbatim>\<open>append\<close> and
  \<^verbatim>\<open>merge\<close> both set, \<^verbatim>\<open>getScrollMode\<close> says append, and the excluded axis
  inherits the queued target all the same (80 and 300 below). The single-axis
  branch decides the same question by the scroll mode: with the axis option
  \<^verbatim>\<open>both\<close> and the same flags, the axis that the hash omits gets the
  ignore-axis value.
\<close>

theorem normalizePosition_append_merge_inherits:
  "getScrollMode
      [(''axis'', JStr ''vertical''), (''queue'', JStr ''internal.jquery.scrollable''),
       (''append'', JBool True), (''merge'', JBool True)] = MODE_APPEND \<and>
   normalizePosition
      (JObj [(''vertical'', JNum (Fin 100))])
      exampleContainer
      (\<lambda>name. [\<lparr>position = Some \<lparr>qhorizontal = Some (Fin 80), qvertical = None\<rparr>\<rparr>])
      [(''axis'', JStr ''vertical''), (''queue'', JStr ''internal.jquery.scrollable''),
       (''append'', JBool True), (''merge'', JBool True)]
     = Inr \<lparr>horizontal = Fin 80, vertical = Fin 100\<rparr> \<and>
   normalizePosition
      (JObj [(''horizontal'', JNum (Fin 100))])
      exampleContainer
      (\<lambda>name. [\<lparr>position = Some \<lparr>qhorizontal = None, qvertical = Some (Fin 300)\<rparr>\<rparr>])
      [(''axis'', JStr ''horizontal''), (''queue'', JStr ''internal.jquery.scrollable''),
       (''append'', JBool True), (''merge'', JBool True)]
     = Inr \<lparr>horizontal = Fin 100, vertical = Fin 300\<rparr> \<and>
   normalizePosition
      (JObj [(''vertical'', JNum (Fin 100))])
      exampleContainer
      (\<lambda>name. [\<lparr>position = Some \<lparr>qhorizontal = Some (Fin 80), qvertical = None\<rparr>\<rparr>])
      [(''axis'', JStr ''both''), (''queue'', JStr ''internal.jquery.scrollable''),
       (''append'', JBool True), (''merge'', JBool True)]
     = Inr \<lparr>horizontal = IGNORE_AXIS, vertical = Fin 100\<rparr>"
  by code_simp

end
